theory Spec2Isabelle
  imports Complex_Main
begin

section \<open>Values shared by the Gateway and the Tracker\<close>

text \<open>
  A JavaScript value of type \<open>T | null | undefined\<close>. The wire format declares most
  positions of a state vector as \<open>T | null\<close>; the code also tests them against
  \<open>undefined\<close> (a position past the end of a short array), so both are kept apart.
  In the Tracker and the renderer numbers are modelled as exact reals: rounding, NaN and
  signed zero of IEEE doubles are outside the model there. The Gateway's passage through
  \<open>JSON.parse\<close> and \<open>JSON.stringify\<close> is modelled with doubles, further down.
\<close>

datatype 'a nullable = Null | Undefined | Val 'a

text \<open>What a \<open>throw\<close> carries: an \<open>Error\<close> object with its message, or any other value.\<close>

datatype thrown = ErrorObj string | OtherThrown

text \<open>
  The response of \<open>fetch\<close>, as far as the code reads it: \<open>ok\<close>, \<open>status\<close>,
  \<open>statusText\<close>, and what reading the body as JSON meets: the body does not parse
  and \<open>await response.json()\<close> throws, or it parses and \<open>json\<close> holds the body.
\<close>

record 'd response =
  ok :: bool
  status :: nat
  statusText :: string
  json :: "thrown + 'd"

text \<open>\<open>await fetch(url)\<close> either rejects (network failure) or resolves to a response.\<close>

datatype 'd fetch_result = FetchThrows thrown | FetchResponse "'d response"

text \<open>
  The network is a function from the requested URL to what \<open>fetch\<close> does with it. A call
  of \<open>fetch\<close> appends the URL to the list of requests issued and returns the outcome.
\<close>

definition fetch_js ::
  "(string \<Rightarrow> 'd fetch_result) \<Rightarrow> string \<Rightarrow> string list \<Rightarrow> (thrown + 'd response) \<times> string list" where
  "fetch_js net url sent =
     (case net url of
        FetchThrows e \<Rightarrow> (Inl e, sent @ [url])
      | FetchResponse r \<Rightarrow> (Inr r, sent @ [url]))"

section \<open>JSON documents and JavaScript values\<close>

text \<open>
  A JSON document as it stands on the wire: a number is the exact value of its literal,
  an object is the list of its members in the order written, repeated names included.
\<close>

datatype json_value =
    JNull
  | JBool bool
  | JNumber real
  | JString string
  | JArray "json_value list"
  | JObject "(string \<times> json_value) list"

text \<open>
  A JavaScript number that \<open>JSON.parse\<close> can produce: a finite double, given by its
  value, or an infinity. Minus zero is not told apart from zero.
\<close>

datatype js_number = Finite real | PosInfinity | NegInfinity

text \<open>
  A JavaScript value built from JSON: the properties of an object are listed in the order
  in which the object enumerates its own keys.
\<close>

datatype js_value =
    JSNull
  | JSBool bool
  | JSNumber js_number
  | JSString string
  | JSArray "js_value list"
  | JSObject "(string \<times> js_value) list"

text \<open>The number of binary digits of a natural number.\<close>

fun bit_length :: "nat \<Rightarrow> nat" where
  "bit_length n = (if n = 0 then 0 else Suc (bit_length (n div 2)))"

declare bit_length.simps [simp del]

text \<open>
  The distance between neighbouring doubles around a magnitude \<open>a\<close> below \<open>2 ^ 1024\<close>:
  \<open>2 ^ (e - 52)\<close> for \<open>a\<close> in \<open>[2 ^ e, 2 ^ (e + 1))\<close>, and \<open>2 ^ -1074\<close> throughout the
  subnormal range.
\<close>

definition binade_ulp :: "real \<Rightarrow> real" where
  "binade_ulp a =
     (if 1 \<le> a then 2 ^ (bit_length (nat \<lfloor>a\<rfloor>) - 1) / 2 ^ 52
      else 1 / 2 ^ (min 1074 (52 + bit_length (nat (\<lceil>1 / a\<rceil> - 1)))))"

definition round_half_even :: "real \<Rightarrow> int" where
  "round_half_even q =
     (let f = \<lfloor>q\<rfloor> in
      if q - of_int f < 1 / 2 then f
      else if 1 / 2 < q - of_int f then f + 1
      else if even f then f else f + 1)"

text \<open>
  The Number value of a numeric literal: the nearest double, ties to the even
  significand; a magnitude of \<open>2 ^ 1024 - 2 ^ 970\<close> or more becomes an infinity.
\<close>

definition to_double :: "real \<Rightarrow> js_number" where
  "to_double x =
     (if 2 ^ 1024 - 2 ^ 970 \<le> \<bar>x\<bar> then (if 0 < x then PosInfinity else NegInfinity)
      else (let u = binade_ulp \<bar>x\<bar>
            in Finite (sgn x * (of_int (round_half_even (\<bar>x\<bar> / u)) * u))))"

text \<open>The number of decimal digits of a natural number.\<close>

fun digit_count :: "nat \<Rightarrow> nat" where
  "digit_count n = (if n = 0 then 0 else Suc (digit_count (n div 10)))"

declare digit_count.simps [simp del]

text \<open>The \<open>m\<close> with \<open>10 ^ (m - 1) \<le> a < 10 ^ m\<close>, for a positive \<open>a\<close>.\<close>

definition decimal_exponent :: "real \<Rightarrow> int" where
  "decimal_exponent a =
     (if 1 \<le> a then int (digit_count (nat \<lfloor>a\<rfloor>))
      else 1 - int (digit_count (nat (\<lceil>1 / a\<rceil> - 1))))"

definition pow10 :: "int \<Rightarrow> real" where
  "pow10 e = (if 0 \<le> e then 10 ^ nat e else 1 / 10 ^ nat (- e))"

text \<open>
  The decimal that JavaScript writes for a positive double \<open>a\<close>: of the decimals that
  read back as \<open>a\<close>, one with the fewest significant digits, and among those the one
  nearest to \<open>a\<close>. The digit counts are tried in order; for \<open>k\<close> digits the two
  candidates are the neighbours of \<open>a\<close> among the multiples of \<open>10 ^ (m - k)\<close>.
\<close>

fun shortest_decimal :: "nat list \<Rightarrow> int \<Rightarrow> real \<Rightarrow> real" where
  "shortest_decimal [] m a = a"
| "shortest_decimal (k # ks) m a =
     (let g = pow10 (m - int k);
          s = \<lfloor>a / g\<rfloor>;
          lo = of_int s * g;
          hi = lo + g;
          lo_ok = (to_double lo = Finite a);
          hi_ok = (to_double hi = Finite a)
      in if lo_ok \<and> hi_ok then
           (if a - lo < hi - a then lo
            else if hi - a < a - lo then hi
            else if even s then lo else hi)
         else if lo_ok then lo
         else if hi_ok then hi
         else shortest_decimal ks m a)"

text \<open>
  The value of the numeral that \<open>Number.prototype.toString\<close>, and so \<open>JSON.stringify\<close>,
  writes for a finite double; seventeen digits always suffice.
\<close>

definition Number_toString :: "real \<Rightarrow> real" where
  "Number_toString x =
     (if x = 0 then 0
      else sgn x * shortest_decimal [1, 2, 3, 4, 5, 6, 7, 8, 9, 10, 11, 12, 13, 14, 15, 16, 17]
                     (decimal_exponent \<bar>x\<bar>) \<bar>x\<bar>)"

text \<open>The value of a decimal digit; any other character has none.\<close>

fun digit_value :: "char \<Rightarrow> nat option" where
  "digit_value c =
     map_of [(CHR ''0'', 0), (CHR ''1'', 1), (CHR ''2'', 2), (CHR ''3'', 3), (CHR ''4'', 4),
             (CHR ''5'', 5), (CHR ''6'', 6), (CHR ''7'', 7), (CHR ''8'', 8), (CHR ''9'', 9)] c"

fun decimal_value :: "nat \<Rightarrow> string \<Rightarrow> nat option" where
  "decimal_value n [] = Some n"
| "decimal_value n (c # cs) =
     (case digit_value c of None \<Rightarrow> None | Some d \<Rightarrow> decimal_value (10 * n + d) cs)"

text \<open>
  A property key is an array index when it is the decimal numeral, without leading
  zeros, of an integer below \<open>2 ^ 32 - 1\<close>.
\<close>

definition array_index :: "string \<Rightarrow> nat option" where
  "array_index k =
     (if k = [] \<or> (hd k = CHR ''0'' \<and> k \<noteq> ''0'') then None
      else (case decimal_value 0 k of
              None \<Rightarrow> None
            | Some n \<Rightarrow> if n < 4294967295 then Some n else None))"

text \<open>
  The order in which an object enumerates its own keys: array indices first, ascending,
  then the other keys in the order of their creation. \<open>key_before k k'\<close> says that a new
  key \<open>k\<close> goes in front of an existing key \<open>k'\<close>.
\<close>

definition key_before :: "string \<Rightarrow> string \<Rightarrow> bool" where
  "key_before k k' =
     (case array_index k of
        None \<Rightarrow> False
      | Some i \<Rightarrow> (case array_index k' of None \<Rightarrow> True | Some j \<Rightarrow> i < j))"

text \<open>
  Defining the property \<open>k\<close> on an object: an existing property keeps its place and
  takes the new value, a new one goes to its place in the enumeration order.
\<close>

fun CreateDataProperty :: "(string \<times> 'v) list \<Rightarrow> string \<Rightarrow> 'v \<Rightarrow> (string \<times> 'v) list" where
  "CreateDataProperty [] k v = [(k, v)]"
| "CreateDataProperty ((k', v') # ps) k v =
     (if k' = k then (k, v) # ps
      else if key_before k k' then (k, v) # (k', v') # ps
      else (k', v') # CreateDataProperty ps k v)"

definition build_object :: "(string \<times> 'v) list \<Rightarrow> (string \<times> 'v) list" where
  "build_object kvs = foldl (\<lambda>ps (k, v). CreateDataProperty ps k v) [] kvs"

text \<open>
  \<open>JSON.parse\<close> on a document: numbers become doubles, the members of an object are
  defined one after the other, so the last of several members with one name wins.
\<close>

fun JSON_parse :: "json_value \<Rightarrow> js_value" where
  "JSON_parse JNull = JSNull"
| "JSON_parse (JBool b) = JSBool b"
| "JSON_parse (JNumber x) = JSNumber (to_double x)"
| "JSON_parse (JString s) = JSString s"
| "JSON_parse (JArray xs) = JSArray (map JSON_parse xs)"
| "JSON_parse (JObject kvs) = JSObject (build_object (map (\<lambda>(k, v). (k, JSON_parse v)) kvs))"

text \<open>
  \<open>JSON.stringify\<close> on such a value: a finite number is written as its shortest
  decimal, an infinity as \<open>null\<close>.
\<close>

fun JSON_stringify :: "js_value \<Rightarrow> json_value" where
  "JSON_stringify JSNull = JNull"
| "JSON_stringify (JSBool b) = JBool b"
| "JSON_stringify (JSNumber n) =
     (case n of Finite x \<Rightarrow> JNumber (Number_toString x) | _ \<Rightarrow> JNull)"
| "JSON_stringify (JSString s) = JString s"
| "JSON_stringify (JSArray xs) = JArray (map JSON_stringify xs)"
| "JSON_stringify (JSObject ps) = JObject (map (\<lambda>(k, v). (k, JSON_stringify v)) ps)"

text \<open>
  The documents that parsing and writing back leave as they are: every number is the
  decimal that JavaScript writes for the double nearest to it, and in every object the
  names are distinct and already in enumeration order.
\<close>

fun canonical_json :: "json_value \<Rightarrow> bool" where
  "canonical_json JNull = True"
| "canonical_json (JBool b) = True"
| "canonical_json (JNumber x) =
     (case to_double x of Finite d \<Rightarrow> Number_toString d = x | _ \<Rightarrow> False)"
| "canonical_json (JString s) = True"
| "canonical_json (JArray xs) = (\<forall>x \<in> set xs. canonical_json x)"
| "canonical_json (JObject kvs) =
     (sorted_wrt (\<lambda>a b. a \<noteq> b \<and> \<not> key_before b a) (map fst kvs)
      \<and> (\<forall>p \<in> set kvs. canonical_json (snd p)))"

section \<open>Proxy Gateway: \<open>src/app/api/states/route.ts\<close>\<close>

text \<open>The request, as far as \<open>GET\<close> reads it: the query parameters in order.\<close>

record NextRequest =
  searchParams :: "(string \<times> string) list"

text \<open>\<open>URLSearchParams.get\<close>: the first value of the name, or \<open>null\<close>.\<close>

definition searchParams_get :: "(string \<times> string) list \<Rightarrow> string \<Rightarrow> string option" where
  "searchParams_get ps name = map_of ps name"

text \<open>Interpolation \<open>${x}\<close> of a \<open>string | null\<close> in a template literal.\<close>

fun template_str :: "string option \<Rightarrow> string" where
  "template_str None = ''null''"
| "template_str (Some s) = s"

text \<open>
  The body of the Gateway's answer, as a JSON document: \<open>{error: string}\<close>, or what
  \<open>JSON.stringify\<close> writes for the data.
\<close>

datatype gateway_body = ErrorBody string | DataBody json_value

record NextResponse =
  next_status :: nat
  next_body :: gateway_body

text \<open>
  A status with which a response carries no body. The platform's \<open>Response\<close>
  constructor refuses to build a response that has both such a status and a body.
\<close>

definition null_body_status :: "nat \<Rightarrow> bool" where
  "null_body_status n \<longleftrightarrow> n = 101 \<or> n = 103 \<or> n = 204 \<or> n = 205 \<or> n = 304"

text \<open>
  The messages of the \<open>RangeError\<close> and the \<open>TypeError\<close> that the constructor throws.
  Their wording is the platform's; these texts stand for it.
\<close>

definition status_range_message :: string where
  "status_range_message = ''status must be in the range of 200 to 599, inclusive''"

definition null_body_message :: string where
  "null_body_message = ''Response constructor: Invalid response status code''"

text \<open>
  \<open>NextResponse.json(body, {status})\<close>; the status is 200 when none is given. The call
  builds a platform \<open>Response\<close> with a body, which throws for a status outside 200..599
  and for a null body status.
\<close>

definition NextResponse_json :: "gateway_body \<Rightarrow> nat option \<Rightarrow> thrown + NextResponse" where
  "NextResponse_json b init =
     (let st = (case init of None \<Rightarrow> 200 | Some n \<Rightarrow> n) in
      if st < 200 \<or> 599 < st then Inl (ErrorObj status_range_message)
      else if null_body_status st then Inl (ErrorObj null_body_message)
      else Inr \<lparr>next_status = st, next_body = b\<rparr>)"

definition openSkyURL :: "NextRequest \<Rightarrow> string" where
  "openSkyURL request =
     (let lamin = searchParams_get (searchParams request) ''lamin'';
          lomin = searchParams_get (searchParams request) ''lomin'';
          lamax = searchParams_get (searchParams request) ''lamax'';
          lomax = searchParams_get (searchParams request) ''lomax''
      in ''https://opensky-network.org/api/states/all?lamin='' @ template_str lamin
         @ ''&lomin='' @ template_str lomin
         @ ''&lamax='' @ template_str lamax
         @ ''&lomax='' @ template_str lomax)"

text \<open>
  \<open>await response.json()\<close> in the Gateway: the upstream body, when it parses, is turned
  into a JavaScript value by \<open>JSON.parse\<close>.
\<close>

definition response_json :: "json_value response \<Rightarrow> thrown + js_value" where
  "response_json response =
     (case json response of Inl e \<Rightarrow> Inl e | Inr body \<Rightarrow> Inr (JSON_parse body))"

text \<open>
  The body of the \<open>try\<close> block of \<open>GET\<close>: \<open>Inl\<close> is an exception leaving the block,
  also one thrown by \<open>NextResponse.json\<close>. \<open>NextResponse.json(data)\<close> writes the data
  with \<open>JSON.stringify\<close>.
\<close>

definition GET_try ::
  "(string \<Rightarrow> json_value fetch_result) \<Rightarrow> string \<Rightarrow> string list
     \<Rightarrow> (thrown + NextResponse) \<times> string list" where
  "GET_try upstream url sent =
     (case fetch_js upstream url sent of
        (Inl e, sent') \<Rightarrow> (Inl e, sent')
      | (Inr response, sent') \<Rightarrow>
          if \<not> ok response then
            (NextResponse_json
               (ErrorBody (''Error fetching from OpenSky Network: '' @ statusText response))
               (Some (status response)), sent')
          else
            (case response_json response of
               Inl e \<Rightarrow> (Inl e, sent')
             | Inr data \<Rightarrow> (NextResponse_json (DataBody (JSON_stringify data)) None, sent')))"

text \<open>
  \<open>GET\<close>: the \<open>try\<close> block, and the \<open>catch\<close> that turns every exception into a
  500 response. The result \<open>Inl\<close> would be an exception leaving the handler.
\<close>

definition GET ::
  "NextRequest \<Rightarrow> (string \<Rightarrow> json_value fetch_result) \<Rightarrow> string list
     \<Rightarrow> (thrown + NextResponse) \<times> string list" where
  "GET request upstream sent =
     (case GET_try upstream (openSkyURL request) sent of
        (Inr r, sent') \<Rightarrow> (Inr r, sent')
      | (Inl error, sent') \<Rightarrow>
          (let errorMessage = (case error of ErrorObj m \<Rightarrow> m | OtherThrown \<Rightarrow> ''Unknown error occurred'')
           in (NextResponse_json (ErrorBody (''Internal Server Error: '' @ errorMessage)) (Some 500),
               sent')))"

section \<open>Viewport Tracker: \<open>fetchData\<close> in \<open>src/app/page.tsx\<close>\<close>

text \<open>\<open>interface StateVector\<close>: the positional array, one field per index.\<close>

record StateVector =
  idx0 :: string
  idx1 :: "string nullable"
  idx2 :: string
  idx3 :: "real nullable"
  idx4 :: real
  idx5 :: "real nullable"
  idx6 :: "real nullable"
  idx7 :: "real nullable"
  idx8 :: bool
  idx9 :: "real nullable"
  idx10 :: "real nullable"
  idx11 :: "real nullable"
  idx12 :: "real list nullable"
  idx13 :: "real nullable"
  idx14 :: "string nullable"
  idx15 :: bool
  idx16 :: real
  idx17 :: "real nullable"

text \<open>
  \<open>interface AircraftData\<close>. An optional field holds \<open>Undefined\<close> or a value; longitude
  and latitude are filled by the unchecked cast \<open>state[5] as number\<close>, which passes the
  run-time value through, so they keep the type of the source position.
\<close>

record AircraftData =
  icao24 :: string
  callsign :: "string nullable"
  origin_country :: string
  time_position :: "real nullable"
  last_contact :: real
  longitude :: "real nullable"
  latitude :: "real nullable"
  baro_altitude :: "real nullable"
  on_ground :: bool
  velocity :: "real nullable"
  true_track :: "real nullable"
  vertical_rate :: "real nullable"
  sensors :: "real list nullable"
  geo_altitude :: "real nullable"
  squawk :: "string nullable"
  spi :: bool
  position_source :: real
  category :: real

text \<open>\<open>x ?? undefined\<close>.\<close>

fun nullish_undefined :: "'a nullable \<Rightarrow> 'a nullable" where
  "nullish_undefined Null = Undefined"
| "nullish_undefined Undefined = Undefined"
| "nullish_undefined (Val v) = Val v"

text \<open>\<open>x ?? d\<close> with a default of the value's own type.\<close>

fun nullish_default :: "'a nullable \<Rightarrow> 'a \<Rightarrow> 'a" where
  "nullish_default Null d = d"
| "nullish_default Undefined d = d"
| "nullish_default (Val v) d = v"

text \<open>The predicate of \<open>.filter\<close>.\<close>

definition filter_state :: "StateVector \<Rightarrow> bool" where
  "filter_state state \<longleftrightarrow>
     idx5 state \<noteq> Null \<and> idx6 state \<noteq> Null \<and> idx5 state \<noteq> Undefined \<and> idx6 state \<noteq> Undefined"

text \<open>The function of \<open>.map\<close>.\<close>

definition map_state :: "StateVector \<Rightarrow> AircraftData" where
  "map_state state =
     \<lparr>icao24 = idx0 state,
      callsign = nullish_undefined (idx1 state),
      origin_country = idx2 state,
      time_position = nullish_undefined (idx3 state),
      last_contact = idx4 state,
      longitude = idx5 state,
      latitude = idx6 state,
      baro_altitude = nullish_undefined (idx7 state),
      on_ground = idx8 state,
      velocity = nullish_undefined (idx9 state),
      true_track = Val (nullish_default (idx10 state) 0),
      vertical_rate = nullish_undefined (idx11 state),
      sensors = nullish_undefined (idx12 state),
      geo_altitude = nullish_undefined (idx13 state),
      squawk = nullish_undefined (idx14 state),
      spi = idx15 state,
      position_source = idx16 state,
      category = nullish_default (idx17 state) 0\<rparr>"

text \<open>
  The parsed body of the Gateway's answer, as far as the Tracker reads it. The body is
  taken to have its declared shape: \<open>states\<close> is null, absent, or an array of state
  vectors of the interface above.
\<close>

record api_data =
  states :: "StateVector list nullable"

text \<open>\<open>data.states || []\<close>: an array is truthy, also when empty.\<close>

fun states_or_empty :: "StateVector list nullable \<Rightarrow> StateVector list" where
  "states_or_empty Null = []"
| "states_or_empty Undefined = []"
| "states_or_empty (Val xs) = xs"

definition formattedData :: "api_data \<Rightarrow> AircraftData list" where
  "formattedData data = map map_state (filter filter_state (states_or_empty (states data)))"

text \<open>The map widget, as far as \<open>fetchData\<close> reads it.\<close>

record LatLngBounds =
  sw_lat :: real
  sw_lng :: real
  ne_lat :: real
  ne_lng :: real

record GoogleMap =
  getZoom :: "real option"
  getBounds :: "LatLngBounds option"

datatype log_entry =
    FailedToFetch string
  | ErrorFetching thrown

text \<open>
  The state \<open>fetchData\<close> acts on: the React state \<open>aircraftData\<close>, the requests issued
  so far, and what \<open>console.error\<close> has printed. \<open>setAircraftData\<close> replaces the whole
  record set.
\<close>

record tracker =
  aircraftData :: "AircraftData list"
  requests :: "string list"
  console :: "log_entry list"

definition setAircraftData :: "AircraftData list \<Rightarrow> tracker \<Rightarrow> tracker" where
  "setAircraftData v s = s\<lparr>aircraftData := v\<rparr>"

definition console_error :: "log_entry \<Rightarrow> tracker \<Rightarrow> tracker" where
  "console_error e s = s\<lparr>console := console s @ [e]\<rparr>"

text \<open>
  The URL of the query. \<open>num_str\<close> stands for JavaScript's conversion of a number to a
  string in a template literal.
\<close>

definition states_url :: "(real \<Rightarrow> string) \<Rightarrow> LatLngBounds \<Rightarrow> string" where
  "states_url num_str bounds =
     (let lamin = sw_lat bounds;
          lomin = sw_lng bounds;
          lamax = ne_lat bounds;
          lomax = ne_lng bounds
      in ''/api/states?lamin='' @ num_str lamin @ ''&lomin='' @ num_str lomin
         @ ''&lamax='' @ num_str lamax @ ''&lomax='' @ num_str lomax)"

text \<open>The body of the \<open>try\<close> block of \<open>fetchData\<close>.\<close>

definition fetchData_try ::
  "(string \<Rightarrow> api_data fetch_result) \<Rightarrow> string \<Rightarrow> tracker \<Rightarrow> (thrown + unit) \<times> tracker" where
  "fetchData_try net url s =
     (case fetch_js net url (requests s) of
        (Inl e, sent') \<Rightarrow> (Inl e, s\<lparr>requests := sent'\<rparr>)
      | (Inr response, sent') \<Rightarrow>
          (let s1 = s\<lparr>requests := sent'\<rparr> in
           if \<not> ok response then
             (Inr (), setAircraftData [] (console_error (FailedToFetch (statusText response)) s1))
           else
             (case json response of
                Inl e \<Rightarrow> (Inl e, s1)
              | Inr data \<Rightarrow> (Inr (), setAircraftData (formattedData data) s1))))"

text \<open>
  \<open>fetchData\<close>. The first component of the result is how the call ends: \<open>Inr ()\<close>
  normally, \<open>Inl e\<close> with an exception (a rejected promise).
\<close>

definition fetchData ::
  "(real \<Rightarrow> string) \<Rightarrow> (string \<Rightarrow> api_data fetch_result) \<Rightarrow> GoogleMap option \<Rightarrow> tracker
     \<Rightarrow> (thrown + unit) \<times> tracker" where
  "fetchData num_str net currentMap s =
     (case currentMap of
        None \<Rightarrow> (Inr (), s)
      | Some m \<Rightarrow>
          (case getZoom m of
             None \<Rightarrow> (Inr (), setAircraftData [] s)
           | Some currentZoom \<Rightarrow>
               if currentZoom < 7 then (Inr (), setAircraftData [] s)
               else
                 (case getBounds m of
                    None \<Rightarrow> (Inr (), s)
                  | Some bounds \<Rightarrow>
                      (case fetchData_try net (states_url num_str bounds) s of
                         (Inr u, s') \<Rightarrow> (Inr u, s')
                       | (Inl error, s') \<Rightarrow>
                           (Inr (), setAircraftData [] (console_error (ErrorFetching error) s'))))))"

section \<open>Renderer: the accessors of the \<open>IconLayer\<close> in \<open>src/app/page.tsx\<close>\<close>

text \<open>\<open>x || 0\<close> on an optional number: \<open>null\<close>, \<open>undefined\<close> and \<open>0\<close> are falsy.\<close>

fun or_zero :: "real nullable \<Rightarrow> real" where
  "or_zero Null = 0"
| "or_zero Undefined = 0"
| "or_zero (Val v) = (if v = 0 then 0 else v)"

definition getPosition :: "AircraftData \<Rightarrow> real \<times> real \<times> real" where
  "getPosition d = (or_zero (longitude d), or_zero (latitude d), or_zero (baro_altitude d))"

definition getSize :: "AircraftData \<Rightarrow> nat" where
  "getSize d = (if on_ground d then 10 else 20)"

definition getColor :: "AircraftData \<Rightarrow> nat list" where
  "getColor d = (if on_ground d then [255, 0, 0, 200] else [0, 255, 0, 200])"

definition getAngle :: "AircraftData \<Rightarrow> real" where
  "getAngle d = - (or_zero (true_track d)) + 90"

section \<open>Sample data for the concrete instances below\<close>


definition state_tokyo :: StateVector where
  "state_tokyo =
     \<lparr>idx0 = ''86d624'', idx1 = Val ''JAL123'', idx2 = ''Japan'', idx3 = Val 1700000000,
      idx4 = 1700000001, idx5 = Val 139, idx6 = Val 35, idx7 = Val 10000, idx8 = False,
      idx9 = Val 230, idx10 = Val 180, idx11 = Val 0, idx12 = Null, idx13 = Val 10100,
      idx14 = Val ''2000'', idx15 = False, idx16 = 0, idx17 = Val 4\<rparr>"

definition state_no_longitude :: StateVector where
  "state_no_longitude = state_tokyo\<lparr>idx0 := ''a1b2c3'', idx5 := Null\<rparr>"

definition state_parked :: StateVector where
  "state_parked =
     state_tokyo\<lparr>idx0 := ''4b1805'', idx7 := Null, idx8 := True, idx10 := Null, idx17 := Undefined\<rparr>"

definition tracker_showing :: tracker where
  "tracker_showing = \<lparr>aircraftData = [map_state state_tokyo], requests = [], console = []\<rparr>"

definition map_at :: "real \<Rightarrow> GoogleMap" where
  "map_at z =
     \<lparr>getZoom = Some z,
      getBounds = Some \<lparr>sw_lat = 10, sw_lng = 10, ne_lat = 20, ne_lng = 20\<rparr>\<rparr>"

definition show_ten_twenty :: "real \<Rightarrow> string" where
  "show_ten_twenty x = (if x = 10 then ''10'' else ''20'')"

definition net_answers :: "'d response \<Rightarrow> string \<Rightarrow> 'd fetch_result" where
  "net_answers r url = FetchResponse r"

definition net_down :: "string \<Rightarrow> 'd fetch_result" where
  "net_down url = FetchThrows (ErrorObj ''fetch failed'')"

definition not_modified :: "json_value response" where
  "not_modified = \<lparr>ok = False, status = 304, statusText = ''Not Modified'', json = Inl OtherThrown\<rparr>"

definition service_unavailable :: "json_value response" where
  "service_unavailable =
     \<lparr>ok = False, status = 503, statusText = ''Service Unavailable'', json = Inl OtherThrown\<rparr>"

definition box_request :: NextRequest where
  "box_request =
     \<lparr>searchParams = [(''lamin'', ''10''), (''lomin'', ''10''), (''lamax'', ''20''), (''lomax'', ''20'')]\<rparr>"

definition upstream_ok :: "json_value \<Rightarrow> json_value response" where
  "upstream_ok body = \<lparr>ok = True, status = 200, statusText = ''OK'', json = Inr body\<rparr>"

section \<open>Basic facts about a fetch cycle\<close>

lemma fetchData_try_throws:
  "net url = FetchThrows e \<Longrightarrow>
     fetchData_try net url s = (Inl e, s\<lparr>requests := requests s @ [url]\<rparr>)"
  by (simp add: fetchData_try_def fetch_js_def)

lemma fetchData_try_not_ok:
  "net url = FetchResponse r \<Longrightarrow> \<not> ok r \<Longrightarrow>
     fetchData_try net url s =
       (Inr (), s\<lparr>requests := requests s @ [url],
                   console := console s @ [FailedToFetch (statusText r)],
                   aircraftData := []\<rparr>)"
  by (simp add: fetchData_try_def fetch_js_def setAircraftData_def console_error_def)

lemma fetchData_try_bad_json:
  "net url = FetchResponse r \<Longrightarrow> ok r \<Longrightarrow> json r = Inl e \<Longrightarrow>
     fetchData_try net url s = (Inl e, s\<lparr>requests := requests s @ [url]\<rparr>)"
  by (simp add: fetchData_try_def fetch_js_def)

lemma fetchData_try_data:
  "net url = FetchResponse r \<Longrightarrow> ok r \<Longrightarrow> json r = Inr data \<Longrightarrow>
     fetchData_try net url s =
       (Inr (), s\<lparr>requests := requests s @ [url], aircraftData := formattedData data\<rparr>)"
  by (simp add: fetchData_try_def fetch_js_def setAircraftData_def)

lemma fetchData_try_requests:
  "requests (snd (fetchData_try net url s)) = requests s @ [url]"
  by (cases "net url")
     (simp_all add: fetchData_try_def fetch_js_def setAircraftData_def console_error_def Let_def
        split: sum.splits)

lemma fetchData_query:
  "getZoom m = Some z \<Longrightarrow> 7 \<le> z \<Longrightarrow> getBounds m = Some b \<Longrightarrow>
     fetchData num_str net (Some m) s =
       (case fetchData_try net (states_url num_str b) s of
          (Inr u, s') \<Rightarrow> (Inr u, s')
        | (Inl error, s') \<Rightarrow>
            (Inr (), setAircraftData [] (console_error (ErrorFetching error) s')))"
  by (simp add: fetchData_def)

lemma fetchData_returns: "fst (fetchData num_str net currentMap s) = Inr ()"
  by (simp add: fetchData_def split: option.splits prod.splits sum.splits)

lemma formattedData_position:
  "d \<in> set (formattedData data) \<Longrightarrow> \<exists>lo la. longitude d = Val lo \<and> latitude d = Val la"
proof -
  assume "d \<in> set (formattedData data)"
  then obtain sv where sv: "filter_state sv" and d: "d = map_state sv"
    by (auto simp: formattedData_def)
  from sv obtain lo la where "idx5 sv = Val lo" "idx6 sv = Val la"
    unfolding filter_state_def by (cases "idx5 sv"; cases "idx6 sv") auto
  with d show ?thesis by (simp add: map_state_def)
qed


section \<open>The zoom gate and the bounds check\<close>

text \<open>
  C1. In a fetch cycle on a map whose zoom is undefined or strictly below 7, the Tracker
  sets the aircraft record set to the empty set and issues no query; when the zoom is 7
  or more and the bounds are available, exactly one query is issued: the list of
  requests grows by the one URL built from the bounds.
\<close>

theorem zoom_gate:
  "(getZoom m = None \<or> (\<exists>z. getZoom m = Some z \<and> z < 7) \<longrightarrow>
      fetchData num_str net (Some m) s = (Inr (), s\<lparr>aircraftData := []\<rparr>)
      \<and> requests (snd (fetchData num_str net (Some m) s)) = requests s)
   \<and> (\<forall>z b. getZoom m = Some z \<and> 7 \<le> z \<and> getBounds m = Some b \<longrightarrow>
      requests (snd (fetchData num_str net (Some m) s)) = requests s @ [states_url num_str b])"
proof (intro conjI impI allI)
  assume low: "getZoom m = None \<or> (\<exists>z. getZoom m = Some z \<and> z < 7)"
  then show cleared: "fetchData num_str net (Some m) s = (Inr (), s\<lparr>aircraftData := []\<rparr>)"
    by (auto simp: fetchData_def setAircraftData_def)
  show "requests (snd (fetchData num_str net (Some m) s)) = requests s"
    by (simp add: cleared)
next
  fix z b
  assume open_gate: "getZoom m = Some z \<and> 7 \<le> z \<and> getBounds m = Some b"
  obtain out s' where tried: "fetchData_try net (states_url num_str b) s = (out, s')"
    by (cases "fetchData_try net (states_url num_str b) s")
  have sent: "requests s' = requests s @ [states_url num_str b]"
    using fetchData_try_requests [of net "states_url num_str b" s] by (simp add: tried)
  from open_gate have "fetchData num_str net (Some m) s =
      (case out of Inr u \<Rightarrow> (Inr u, s')
       | Inl error \<Rightarrow> (Inr (), setAircraftData [] (console_error (ErrorFetching error) s')))"
    by (simp add: fetchData_query tried)
  then show "requests (snd (fetchData num_str net (Some m) s)) = requests s @ [states_url num_str b]"
    by (cases out) (simp_all add: sent setAircraftData_def console_error_def)
qed

theorem zoom_gate_witness:
  "fetchData show_ten_twenty net_down (Some (map_at 6)) tracker_showing
     = (Inr (), tracker_showing\<lparr>aircraftData := []\<rparr>)
   \<and> requests (snd (fetchData show_ten_twenty net_down (Some (map_at 6)) tracker_showing)) = []
   \<and> requests (snd (fetchData show_ten_twenty net_down (Some (map_at 7)) tracker_showing))
       = [''/api/states?lamin=10&lomin=10&lamax=20&lomax=20'']"
proof -
  have six: "getZoom (map_at 6) = None \<or> (\<exists>z. getZoom (map_at 6) = Some z \<and> z < 7)"
    by (simp add: map_at_def)
  have seven: "getZoom (map_at 7) = Some 7 \<and> (7::real) \<le> 7
      \<and> getBounds (map_at 7) = Some \<lparr>sw_lat = 10, sw_lng = 10, ne_lat = 20, ne_lng = 20\<rparr>"
    by (simp add: map_at_def)
  have url: "states_url show_ten_twenty \<lparr>sw_lat = 10, sw_lng = 10, ne_lat = 20, ne_lng = 20\<rparr>
      = ''/api/states?lamin=10&lomin=10&lamax=20&lomax=20''"
    by (simp add: states_url_def show_ten_twenty_def)
  have empty: "requests tracker_showing = []"
    by (simp add: tracker_showing_def)
  from zoom_gate [of "map_at 6" show_ten_twenty net_down tracker_showing] six
       zoom_gate [of "map_at 7" show_ten_twenty net_down tracker_showing] seven
  show ?thesis
    by (simp add: url empty)
qed

text \<open>
  C6. In a fetch cycle whose zoom gate passes while the bounds of the map are
  unavailable, the Tracker issues no query and leaves the aircraft record set as it was:
  the whole state is unchanged.
\<close>

theorem no_bounds_skips:
  assumes "getZoom m = Some z" and "7 \<le> z" and "getBounds m = None"
  shows "fetchData num_str net (Some m) s = (Inr (), s)"
  using assms by (simp add: fetchData_def)

theorem no_bounds_skips_witness:
  "fetchData show_ten_twenty net_down (Some \<lparr>getZoom = Some 9, getBounds = None\<rparr>) tracker_showing
     = (Inr (), tracker_showing)
   \<and> aircraftData tracker_showing \<noteq> []"
  using no_bounds_skips [of "\<lparr>getZoom = Some 9, getBounds = None\<rparr>" 9
      show_ten_twenty net_down tracker_showing]
  by (simp add: tracker_showing_def)


section \<open>Failures of a fetch cycle\<close>

text \<open>
  C5. In a fetch cycle that reaches the query (zoom at least 7, bounds available), when
  the Gateway answers with a non-success response, or \<open>fetch\<close> raises a network
  exception, or reading the body raises, the aircraft record set becomes the empty set,
  whatever it held before, and the call ends normally: no exception leaves
  \<open>fetchData\<close>.
\<close>

theorem failed_fetch_clears:
  assumes "getZoom m = Some z" and "7 \<le> z" and "getBounds m = Some b"
    and "net (states_url num_str b) = FetchThrows e
         \<or> (\<exists>r. net (states_url num_str b) = FetchResponse r
                \<and> (\<not> ok r \<or> (ok r \<and> json r = Inl e)))"
  shows "\<exists>s'. fetchData num_str net (Some m) s = (Inr (), s') \<and> aircraftData s' = []"
proof -
  let ?url = "states_url num_str b"
  from assms(4) consider
      (network) "net ?url = FetchThrows e"
    | (status) r where "net ?url = FetchResponse r" "\<not> ok r"
    | (body) r where "net ?url = FetchResponse r" "ok r" "json r = Inl e"
    by blast
  then show ?thesis
  proof cases
    case network
    then show ?thesis
      using assms(1-3)
      by (simp add: fetchData_query fetchData_try_throws setAircraftData_def console_error_def)
  next
    case status
    then show ?thesis
      using assms(1-3) by (simp add: fetchData_query fetchData_try_not_ok)
  next
    case body
    then show ?thesis
      using assms(1-3)
      by (simp add: fetchData_query fetchData_try_bad_json setAircraftData_def console_error_def)
  qed
qed

theorem failed_fetch_clears_witness:
  "aircraftData tracker_showing \<noteq> []
   \<and> (\<exists>s'. fetchData show_ten_twenty net_down (Some (map_at 8)) tracker_showing = (Inr (), s')
          \<and> aircraftData s' = [])"
proof -
  have "net_down (states_url show_ten_twenty \<lparr>sw_lat = 10, sw_lng = 10, ne_lat = 20, ne_lng = 20\<rparr>)
      = (FetchThrows (ErrorObj ''fetch failed'') :: api_data fetch_result)"
    by (simp add: net_down_def)
  then show ?thesis
    using failed_fetch_clears [of "map_at 8" 8
        "\<lparr>sw_lat = 10, sw_lng = 10, ne_lat = 20, ne_lng = 20\<rparr>" net_down show_ten_twenty
        "ErrorObj ''fetch failed''" tracker_showing]
    by (simp add: map_at_def tracker_showing_def)
qed

text \<open>
  C9. When the Gateway answers successfully with a body whose \<open>states\<close> field is null or
  absent, the transformation yields no record, the call ends normally, and the aircraft
  record set is replaced by the empty set: the prior set is not retained.
\<close>

theorem null_states_clears:
  assumes "getZoom m = Some z" and "7 \<le> z" and "getBounds m = Some b"
    and "net (states_url num_str b) = FetchResponse r" and "ok r" and "json r = Inr data"
    and "states data = Null \<or> states data = Undefined"
  shows "formattedData data = []
         \<and> fetchData num_str net (Some m) s
             = (Inr (), s\<lparr>requests := requests s @ [states_url num_str b], aircraftData := []\<rparr>)"
proof -
  from assms(7) have none: "formattedData data = []"
    by (auto simp: formattedData_def)
  from assms(1-6) show ?thesis
    by (simp add: fetchData_query fetchData_try_data none)
qed

theorem null_states_clears_witness:
  "aircraftData tracker_showing \<noteq> []
   \<and> fetchData show_ten_twenty
       (net_answers \<lparr>ok = True, status = 200, statusText = ''OK'', json = Inr \<lparr>states = Null\<rparr>\<rparr>)
       (Some (map_at 8)) tracker_showing
     = (Inr (), tracker_showing\<lparr>requests := [''/api/states?lamin=10&lomin=10&lamax=20&lomax=20''],
                                 aircraftData := []\<rparr>)"
  using null_states_clears [of "map_at 8" 8
      "\<lparr>sw_lat = 10, sw_lng = 10, ne_lat = 20, ne_lng = 20\<rparr>"
      "net_answers \<lparr>ok = True, status = 200, statusText = ''OK'', json = Inr \<lparr>states = Null\<rparr>\<rparr>"
      show_ten_twenty
      "\<lparr>ok = True, status = 200, statusText = ''OK'', json = Inr \<lparr>states = Null\<rparr>\<rparr>"
      "\<lparr>states = Null\<rparr>" tracker_showing]
  by (simp add: map_at_def tracker_showing_def net_answers_def states_url_def show_ten_twenty_def)


section \<open>From state vectors to aircraft records\<close>

text \<open>
  C2. After a successful response, a state vector whose longitude (index 5) or latitude
  (index 6) is null has no record in the aircraft record set, and every record of the set
  has a longitude and a latitude that are numbers. The second part is also an invariant
  of the Tracker: whatever a fetch cycle meets, if every record had both before the
  cycle, every record has both after it.
\<close>

theorem null_position_absent:
  "(\<forall>z b r data. getZoom m = Some z \<and> 7 \<le> z \<and> getBounds m = Some b
        \<and> net (states_url num_str b) = FetchResponse r \<and> ok r \<and> json r = Inr data \<longrightarrow>
      (\<exists>s'. fetchData num_str net (Some m) s = (Inr (), s')
         \<and> aircraftData s' = formattedData data
         \<and> (\<forall>sv. idx5 sv = Null \<or> idx6 sv = Null \<longrightarrow> map_state sv \<notin> set (aircraftData s'))
         \<and> (\<forall>d \<in> set (aircraftData s'). \<exists>lo la. longitude d = Val lo \<and> latitude d = Val la)))
   \<and> ((\<forall>d \<in> set (aircraftData s). \<exists>lo la. longitude d = Val lo \<and> latitude d = Val la) \<longrightarrow>
      (\<forall>d \<in> set (aircraftData (snd (fetchData num_str net currentMap s))).
         \<exists>lo la. longitude d = Val lo \<and> latitude d = Val la))"
proof (intro conjI allI impI)
  fix z b r data
  assume ok_cycle: "getZoom m = Some z \<and> 7 \<le> z \<and> getBounds m = Some b
      \<and> net (states_url num_str b) = FetchResponse r \<and> ok r \<and> json r = Inr data"
  let ?s' = "s\<lparr>requests := requests s @ [states_url num_str b], aircraftData := formattedData data\<rparr>"
  have run: "fetchData num_str net (Some m) s = (Inr (), ?s')"
    using ok_cycle by (simp add: fetchData_query fetchData_try_data)
  have kept: "\<forall>d \<in> set (aircraftData ?s'). \<exists>lo la. longitude d = Val lo \<and> latitude d = Val la"
    using formattedData_position [of _ data] by simp
  have dropped: "\<forall>sv. idx5 sv = Null \<or> idx6 sv = Null \<longrightarrow> map_state sv \<notin> set (aircraftData ?s')"
  proof (intro allI impI notI)
    fix sv
    assume null: "idx5 sv = Null \<or> idx6 sv = Null" and "map_state sv \<in> set (aircraftData ?s')"
    then have "map_state sv \<in> set (formattedData data)" by simp
    from formattedData_position [OF this] null show False
      by (auto simp: map_state_def)
  qed
  from run kept dropped
  show "\<exists>s'. fetchData num_str net (Some m) s = (Inr (), s')
         \<and> aircraftData s' = formattedData data
         \<and> (\<forall>sv. idx5 sv = Null \<or> idx6 sv = Null \<longrightarrow> map_state sv \<notin> set (aircraftData s'))
         \<and> (\<forall>d \<in> set (aircraftData s'). \<exists>lo la. longitude d = Val lo \<and> latitude d = Val la)"
    by (intro exI [of _ ?s']) simp
next
  assume inv: "\<forall>d \<in> set (aircraftData s). \<exists>lo la. longitude d = Val lo \<and> latitude d = Val la"
  have after: "aircraftData (snd (fetchData num_str net currentMap s)) = aircraftData s
      \<or> aircraftData (snd (fetchData num_str net currentMap s)) = []
      \<or> (\<exists>data. aircraftData (snd (fetchData num_str net currentMap s)) = formattedData data)"
    by (auto simp: fetchData_def fetchData_try_def fetch_js_def setAircraftData_def
          console_error_def Let_def
        split: option.splits fetch_result.splits sum.splits)
  then show "\<forall>d \<in> set (aircraftData (snd (fetchData num_str net currentMap s))).
      \<exists>lo la. longitude d = Val lo \<and> latitude d = Val la"
    using inv formattedData_position by (elim disjE exE) auto
qed

theorem null_position_absent_witness:
  "aircraftData (snd (fetchData show_ten_twenty
       (net_answers \<lparr>ok = True, status = 200, statusText = ''OK'',
          json = Inr \<lparr>states = Val [state_tokyo, state_no_longitude, state_parked]\<rparr>\<rparr>)
       (Some (map_at 7)) tracker_showing))
     = [map_state state_tokyo, map_state state_parked]
   \<and> idx5 state_no_longitude = Null
   \<and> map_state state_no_longitude \<notin> set [map_state state_tokyo, map_state state_parked]
   \<and> map (\<lambda>d. (longitude d, latitude d)) [map_state state_tokyo, map_state state_parked]
       = [(Val 139, Val 35), (Val 139, Val 35)]"
proof -
  let ?r = "\<lparr>ok = True, status = 200, statusText = ''OK'',
      json = Inr \<lparr>states = Val [state_tokyo, state_no_longitude, state_parked]\<rparr>\<rparr>"
  let ?b = "\<lparr>sw_lat = 10, sw_lng = 10, ne_lat = 20, ne_lng = 20\<rparr>"
  have cycle: "getZoom (map_at 7) = Some 7 \<and> (7::real) \<le> 7 \<and> getBounds (map_at 7) = Some ?b
      \<and> net_answers ?r (states_url show_ten_twenty ?b) = FetchResponse ?r \<and> ok ?r
      \<and> json ?r = Inr \<lparr>states = Val [state_tokyo, state_no_longitude, state_parked]\<rparr>"
    by (simp add: map_at_def net_answers_def)
  have records: "formattedData \<lparr>states = Val [state_tokyo, state_no_longitude, state_parked]\<rparr>
      = [map_state state_tokyo, map_state state_parked]"
    by (simp add: formattedData_def filter_state_def state_tokyo_def state_no_longitude_def
          state_parked_def)
  have null: "idx5 state_no_longitude = Null"
    by (simp add: state_no_longitude_def)
  from null_position_absent [of "map_at 7" "net_answers ?r" show_ten_twenty tracker_showing,
      THEN conjunct1, rule_format, OF cycle]
  obtain s' where
      "fetchData show_ten_twenty (net_answers ?r) (Some (map_at 7)) tracker_showing = (Inr (), s')"
      "aircraftData s' = [map_state state_tokyo, map_state state_parked]"
      "\<forall>sv. idx5 sv = Null \<or> idx6 sv = Null \<longrightarrow> map_state sv \<notin> set (aircraftData s')"
      "\<forall>d \<in> set (aircraftData s'). \<exists>lo la. longitude d = Val lo \<and> latitude d = Val la"
    unfolding records by blast
  moreover have "map (\<lambda>d. (longitude d, latitude d)) [map_state state_tokyo, map_state state_parked]
      = [(Val 139, Val 35), (Val 139, Val 35)]"
    by (simp add: map_state_def state_tokyo_def state_parked_def)
  ultimately show ?thesis using null by auto
qed

text \<open>
  C4. A state vector with a longitude and a latitude, at any place of the \<open>states\<close>
  array, is mapped to a record at the corresponding place of the result. The record's
  heading \<open>true_track\<close> is 0 when index 10 is null or absent and the value of index 10
  otherwise; its category is 0 when index 17 is absent (or null) and the value of index
  17 otherwise.
\<close>

theorem heading_category_defaults:
  assumes "idx5 sv = Val lo" and "idx6 sv = Val la"
  shows "\<exists>d. formattedData \<lparr>states = Val (xs @ sv # ys)\<rparr>
               = formattedData \<lparr>states = Val xs\<rparr> @ d # formattedData \<lparr>states = Val ys\<rparr>
           \<and> longitude d = Val lo \<and> latitude d = Val la
           \<and> true_track d = Val (case idx10 sv of Val t \<Rightarrow> t | _ \<Rightarrow> 0)
           \<and> category d = (case idx17 sv of Val c \<Rightarrow> c | _ \<Rightarrow> 0)"
proof -
  from assms have "filter_state sv"
    by (simp add: filter_state_def)
  then have "formattedData \<lparr>states = Val (xs @ sv # ys)\<rparr>
      = formattedData \<lparr>states = Val xs\<rparr> @ map_state sv # formattedData \<lparr>states = Val ys\<rparr>"
    by (simp add: formattedData_def)
  moreover have "true_track (map_state sv) = Val (case idx10 sv of Val t \<Rightarrow> t | _ \<Rightarrow> 0)"
    by (cases "idx10 sv") (simp_all add: map_state_def)
  moreover have "category (map_state sv) = (case idx17 sv of Val c \<Rightarrow> c | _ \<Rightarrow> 0)"
    by (cases "idx17 sv") (simp_all add: map_state_def)
  moreover have "longitude (map_state sv) = Val lo \<and> latitude (map_state sv) = Val la"
    using assms by (simp add: map_state_def)
  ultimately show ?thesis by blast
qed

theorem heading_category_defaults_witness:
  "idx10 state_parked = Null \<and> idx17 state_parked = Undefined
   \<and> idx10 state_tokyo = Val 180 \<and> idx17 state_tokyo = Val 4
   \<and> map (\<lambda>d. (true_track d, category d))
       (formattedData \<lparr>states = Val [state_no_longitude, state_parked, state_tokyo]\<rparr>)
     = [(Val 0, 0), (Val 180, 4)]"
proof -
  have parked: "idx5 state_parked = Val 139" "idx6 state_parked = Val 35"
      "idx10 state_parked = Null" "idx17 state_parked = Undefined"
    by (simp_all add: state_parked_def state_tokyo_def)
  have tokyo: "idx5 state_tokyo = Val 139" "idx6 state_tokyo = Val 35"
      "idx10 state_tokyo = Val 180" "idx17 state_tokyo = Val 4"
    by (simp_all add: state_tokyo_def)
  have before: "formattedData \<lparr>states = Val [state_no_longitude]\<rparr> = []"
    by (simp add: formattedData_def filter_state_def state_no_longitude_def)
  have "formattedData \<lparr>states = Val []\<rparr> = []"
    by (simp add: formattedData_def)
  with heading_category_defaults [OF parked(1,2), of "[state_no_longitude]" "[state_tokyo]"]
       heading_category_defaults [OF tokyo(1,2), of "[]" "[]"]
  show ?thesis
    by (auto simp: parked tokyo before)
qed


section \<open>The renderer's accessors\<close>

text \<open>
  C3. For a record with a longitude and a latitude, the renderer's position is
  (longitude, latitude, barometric altitude or 0). The size is 10 on the ground and 20
  otherwise, the smaller constant on the ground; the colour is the red 255, 0, 0 with
  alpha 200 on the ground and the green 0, 255, 0 with alpha 200 otherwise; the rotation
  is minus the heading plus 90, the heading counting as 0 when absent.
\<close>

theorem renderer_accessors:
  assumes "longitude d = Val lo" and "latitude d = Val la"
  shows "getPosition d = (lo, la, case baro_altitude d of Val alt \<Rightarrow> alt | _ \<Rightarrow> 0)
         \<and> (on_ground d \<longrightarrow> getSize d = 10 \<and> getColor d = [255, 0, 0, 200])
         \<and> (\<not> on_ground d \<longrightarrow> getSize d = 20 \<and> getColor d = [0, 255, 0, 200])
         \<and> (\<forall>g a. on_ground g \<and> \<not> on_ground a \<longrightarrow> getSize g < getSize a)
         \<and> getAngle d = - (case true_track d of Val heading \<Rightarrow> heading | _ \<Rightarrow> 0) + 90"
proof -
  have zero: "or_zero x = (case x of Val v \<Rightarrow> v | _ \<Rightarrow> 0)" for x
    by (cases x) simp_all
  have position: "getPosition d = (lo, la, case baro_altitude d of Val alt \<Rightarrow> alt | _ \<Rightarrow> 0)"
    using assms by (simp add: getPosition_def zero)
  have ground: "on_ground d \<longrightarrow> getSize d = 10 \<and> getColor d = [255, 0, 0, 200]"
    by (simp add: getSize_def getColor_def)
  have air: "\<not> on_ground d \<longrightarrow> getSize d = 20 \<and> getColor d = [0, 255, 0, 200]"
    by (simp add: getSize_def getColor_def)
  have smaller: "\<forall>g a. on_ground g \<and> \<not> on_ground a \<longrightarrow> getSize g < getSize a"
    by (simp add: getSize_def)
  have angle: "getAngle d = - (case true_track d of Val heading \<Rightarrow> heading | _ \<Rightarrow> 0) + 90"
    by (simp add: getAngle_def zero)
  from position ground air smaller angle show ?thesis by blast
qed

theorem renderer_accessors_witness:
  "getPosition (map_state state_tokyo) = (139, 35, 10000)
   \<and> getSize (map_state state_tokyo) = 20 \<and> getColor (map_state state_tokyo) = [0, 255, 0, 200]
   \<and> getAngle (map_state state_tokyo) = - 90
   \<and> getPosition (map_state state_parked) = (139, 35, 0)
   \<and> getSize (map_state state_parked) = 10 \<and> getColor (map_state state_parked) = [255, 0, 0, 200]
   \<and> getAngle (map_state state_parked) = 90
   \<and> getAngle (map_state (state_tokyo\<lparr>idx10 := Val 90\<rparr>)) = 0"
proof -
  have fields:
      "longitude (map_state sv) = idx5 sv" "latitude (map_state sv) = idx6 sv"
      "baro_altitude (map_state sv) = nullish_undefined (idx7 sv)"
      "on_ground (map_state sv) = idx8 sv"
      "true_track (map_state sv) = Val (nullish_default (idx10 sv) 0)" for sv
    by (simp_all add: map_state_def)
  have tokyo: "longitude (map_state state_tokyo) = Val 139" "latitude (map_state state_tokyo) = Val 35"
    by (simp_all add: fields state_tokyo_def)
  have parked: "longitude (map_state state_parked) = Val 139" "latitude (map_state state_parked) = Val 35"
    by (simp_all add: fields state_parked_def state_tokyo_def)
  have east: "longitude (map_state (state_tokyo\<lparr>idx10 := Val 90\<rparr>)) = Val 139"
      "latitude (map_state (state_tokyo\<lparr>idx10 := Val 90\<rparr>)) = Val 35"
    by (simp_all add: fields state_tokyo_def)
  from renderer_accessors [OF tokyo] renderer_accessors [OF parked] renderer_accessors [OF east]
  show ?thesis
    by (simp add: fields state_tokyo_def state_parked_def)
qed

section \<open>Parsing a document and writing it back\<close>

lemma CreateDataProperty_new_last:
  "\<forall>p \<in> set ps. fst p \<noteq> k \<and> \<not> key_before k (fst p) \<Longrightarrow>
     CreateDataProperty ps k v = ps @ [(k, v)]"
  by (induction ps) auto

lemma foldl_CreateDataProperty_in_order:
  "sorted_wrt (\<lambda>a b. a \<noteq> b \<and> \<not> key_before b a) (map fst (acc @ kvs)) \<Longrightarrow>
     foldl (\<lambda>ps (k, v). CreateDataProperty ps k v) acc kvs = acc @ kvs"
proof (induction kvs arbitrary: acc)
  case Nil
  then show ?case by simp
next
  case (Cons p kvs)
  obtain k v where p: "p = (k, v)" by (cases p)
  from Cons.prems have "\<forall>q \<in> set acc. fst q \<noteq> k \<and> \<not> key_before k (fst q)"
    by (auto simp: p sorted_wrt_append)
  then have step: "CreateDataProperty acc k v = acc @ [(k, v)]"
    by (rule CreateDataProperty_new_last)
  from Cons.prems have "sorted_wrt (\<lambda>a b. a \<noteq> b \<and> \<not> key_before b a)
      (map fst ((acc @ [(k, v)]) @ kvs))"
    by (simp add: p)
  from Cons.IH [OF this] show ?case
    by (simp add: p step)
qed

lemma build_object_in_order:
  "sorted_wrt (\<lambda>a b. a \<noteq> b \<and> \<not> key_before b a) (map fst kvs) \<Longrightarrow> build_object kvs = kvs"
  using foldl_CreateDataProperty_in_order [of "[]" kvs] by (simp add: build_object_def)

lemma round_trip_canonical: "canonical_json d \<Longrightarrow> JSON_stringify (JSON_parse d) = d"
proof (induction d)
  case (JArray xs)
  then have "map (\<lambda>x. JSON_stringify (JSON_parse x)) xs = xs"
    by (intro map_idI) simp
  then show ?case by (simp add: comp_def)
next
  case (JObject kvs)
  let ?parsed = "map (\<lambda>(k, v). (k, JSON_parse v)) kvs"
  have keys: "map fst ?parsed = map fst kvs"
    by (induction kvs) auto
  from JObject.prems have "sorted_wrt (\<lambda>a b. a \<noteq> b \<and> \<not> key_before b a) (map fst ?parsed)"
    unfolding keys by simp
  then have "build_object ?parsed = ?parsed"
    by (rule build_object_in_order)
  moreover have "map (\<lambda>(k, v). (k, JSON_stringify v)) ?parsed = kvs"
  proof -
    have "map (\<lambda>p. (fst p, JSON_stringify (JSON_parse (snd p)))) kvs = kvs"
    proof (intro map_idI)
      fix p assume member: "p \<in> set kvs"
      with JObject.prems have stable: "canonical_json (snd p)" by simp
      have "snd p \<in> Basic_BNFs.snds p"
        by (cases p) simp
      then have "JSON_stringify (JSON_parse (snd p)) = snd p"
        using member stable by (intro JObject.IH [of p "snd p"])
      then show "(fst p, JSON_stringify (JSON_parse (snd p))) = p" by simp
    qed
    then show ?thesis by (simp add: case_prod_beta comp_def)
  qed
  ultimately show ?case by simp
qed (simp_all split: js_number.splits)

lemma to_double_one: "to_double 1 = Finite 1"
  by (simp add: to_double_def binade_ulp_def round_half_even_def bit_length.simps)

lemma Number_toString_one: "Number_toString 1 = 1"
  by (simp add: Number_toString_def decimal_exponent_def pow10_def digit_count.simps
        to_double_one Let_def)

lemma Number_toString_2_53: "Number_toString 9007199254740992 = 9007199254740992"
  by (simp add: Number_toString_def decimal_exponent_def pow10_def digit_count.simps
        to_double_def binade_ulp_def round_half_even_def bit_length.simps Let_def)

lemma to_double_overflow: "to_double (10 ^ 400) = PosInfinity"
  by (simp add: to_double_def)

lemma to_double_above_2_53: "to_double 9007199254740993 = Finite 9007199254740992"
  by (simp add: to_double_def binade_ulp_def round_half_even_def bit_length.simps Let_def)

section \<open>The Gateway\<close>

lemma NextResponse_json_built:
  "200 \<le> st \<Longrightarrow> st \<le> 599 \<Longrightarrow> \<not> null_body_status st \<Longrightarrow>
     NextResponse_json b (Some st) = Inr \<lparr>next_status = st, next_body = b\<rparr>"
  by (simp add: NextResponse_json_def)

lemma NextResponse_json_500:
  "NextResponse_json b (Some 500) = Inr \<lparr>next_status = 500, next_body = b\<rparr>"
  by (simp add: NextResponse_json_def null_body_status_def)

lemma NextResponse_json_200:
  "NextResponse_json b None = Inr \<lparr>next_status = 200, next_body = b\<rparr>"
  by (simp add: NextResponse_json_def null_body_status_def)

lemma GET_catch:
  "GET_try upstream (openSkyURL request) sent = (Inl e, sent') \<Longrightarrow>
     \<exists>message. GET request upstream sent
        = (Inr \<lparr>next_status = 500, next_body = ErrorBody message\<rparr>, sent')"
  by (simp add: GET_def NextResponse_json_500)

lemma GET_try_not_ok:
  "upstream url = FetchResponse r \<Longrightarrow> \<not> ok r \<Longrightarrow>
     GET_try upstream url sent =
       (NextResponse_json (ErrorBody (''Error fetching from OpenSky Network: '' @ statusText r))
          (Some (status r)), sent @ [url])"
  by (simp add: GET_try_def fetch_js_def)

lemma GET_try_requests: "snd (GET_try upstream url sent) = sent @ [url]"
  by (cases "upstream url")
     (simp_all add: GET_try_def fetch_js_def split: sum.splits)

text \<open>
  C7. When the upstream response is not OK and its status is one that a response with a
  body can carry (200 to 599, and not 204, 205 or 304), the Gateway answers with the
  upstream status and a body \<open>{error: message}\<close> whose message contains the upstream
  status text. When \<open>fetch\<close> raises or reading the upstream body raises, it answers with
  status 500 and a body \<open>{error: message}\<close>. For every upstream response that is not
  OK, whatever its status, the handler returns a response rather than raising, and the
  body is \<open>{error: message}\<close>, never upstream data.
\<close>

theorem gateway_failure:
  "(\<forall>r. upstream (openSkyURL request) = FetchResponse r \<and> \<not> ok r
         \<and> 200 \<le> status r \<and> status r \<le> 599 \<and> \<not> null_body_status (status r) \<longrightarrow>
      (\<exists>message. fst (GET request upstream sent)
           = Inr \<lparr>next_status = status r, next_body = ErrorBody message\<rparr>
         \<and> (\<exists>before after. message = before @ statusText r @ after)))
   \<and> (\<forall>e. upstream (openSkyURL request) = FetchThrows e
           \<or> (\<exists>r. upstream (openSkyURL request) = FetchResponse r \<and> ok r \<and> json r = Inl e) \<longrightarrow>
      (\<exists>message. fst (GET request upstream sent)
           = Inr \<lparr>next_status = 500, next_body = ErrorBody message\<rparr>))
   \<and> (\<forall>r. upstream (openSkyURL request) = FetchResponse r \<and> \<not> ok r \<longrightarrow>
      (\<exists>st message. fst (GET request upstream sent)
           = Inr \<lparr>next_status = st, next_body = ErrorBody message\<rparr>))"
proof (intro conjI allI impI)
  fix r
  assume relayed: "upstream (openSkyURL request) = FetchResponse r \<and> \<not> ok r
      \<and> 200 \<le> status r \<and> status r \<le> 599 \<and> \<not> null_body_status (status r)"
  then have "GET_try upstream (openSkyURL request) sent
      = (Inr \<lparr>next_status = status r,
              next_body = ErrorBody (''Error fetching from OpenSky Network: '' @ statusText r)\<rparr>,
         sent @ [openSkyURL request])"
    by (simp add: GET_try_not_ok NextResponse_json_built)
  then have "fst (GET request upstream sent)
      = Inr \<lparr>next_status = status r,
             next_body = ErrorBody (''Error fetching from OpenSky Network: '' @ statusText r)\<rparr>"
    by (simp add: GET_def)
  moreover have "\<exists>before after. ''Error fetching from OpenSky Network: '' @ statusText r
      = before @ statusText r @ after"
    by (intro exI [of _ "''Error fetching from OpenSky Network: ''"] exI [of _ "[]"]) simp
  ultimately show "\<exists>message. fst (GET request upstream sent)
        = Inr \<lparr>next_status = status r, next_body = ErrorBody message\<rparr>
      \<and> (\<exists>before after. message = before @ statusText r @ after)"
    by blast
next
  fix e
  assume "upstream (openSkyURL request) = FetchThrows e
      \<or> (\<exists>r. upstream (openSkyURL request) = FetchResponse r \<and> ok r \<and> json r = Inl e)"
  then have "GET_try upstream (openSkyURL request) sent = (Inl e, sent @ [openSkyURL request])"
    by (auto simp: GET_try_def fetch_js_def response_json_def)
  from GET_catch [OF this]
  show "\<exists>message. fst (GET request upstream sent)
      = Inr \<lparr>next_status = 500, next_body = ErrorBody message\<rparr>"
    by auto
next
  fix r
  assume not_ok: "upstream (openSkyURL request) = FetchResponse r \<and> \<not> ok r"
  let ?built = "NextResponse_json
      (ErrorBody (''Error fetching from OpenSky Network: '' @ statusText r)) (Some (status r))"
  have tried: "GET_try upstream (openSkyURL request) sent = (?built, sent @ [openSkyURL request])"
    using not_ok by (simp add: GET_try_not_ok)
  show "\<exists>st message. fst (GET request upstream sent)
      = Inr \<lparr>next_status = st, next_body = ErrorBody message\<rparr>"
  proof (cases ?built)
    case (Inl e)
    with tried have "GET_try upstream (openSkyURL request) sent = (Inl e, sent @ [openSkyURL request])"
      by simp
    from GET_catch [OF this] show ?thesis by auto
  next
    case (Inr a)
    then have "a = \<lparr>next_status = status r,
        next_body = ErrorBody (''Error fetching from OpenSky Network: '' @ statusText r)\<rparr>"
      by (auto simp: NextResponse_json_def Let_def split: if_splits)
    with Inr tried show ?thesis
      by (simp add: GET_def)
  qed
qed

theorem gateway_failure_witness:
  "fst (GET box_request (net_answers service_unavailable) [])
     = Inr \<lparr>next_status = 503,
            next_body = ErrorBody ''Error fetching from OpenSky Network: Service Unavailable''\<rparr>
   \<and> fst (GET box_request net_down [])
     = Inr \<lparr>next_status = 500, next_body = ErrorBody ''Internal Server Error: fetch failed''\<rparr>"
proof -
  have unavailable: "net_answers service_unavailable (openSkyURL box_request)
        = FetchResponse service_unavailable \<and> \<not> ok service_unavailable
      \<and> 200 \<le> status service_unavailable \<and> status service_unavailable \<le> 599
      \<and> \<not> null_body_status (status service_unavailable)"
    by (simp add: net_answers_def service_unavailable_def null_body_status_def)
  have down: "net_down (openSkyURL box_request)
      = (FetchThrows (ErrorObj ''fetch failed'') :: json_value fetch_result)"
    by (simp add: net_down_def)
  from gateway_failure [of "net_answers service_unavailable" box_request "[]",
      THEN conjunct1, rule_format, OF unavailable]
  obtain m1 where "fst (GET box_request (net_answers service_unavailable) [])
      = Inr \<lparr>next_status = status service_unavailable, next_body = ErrorBody m1\<rparr>"
    by auto
  moreover
  from gateway_failure [of net_down box_request "[]",
      THEN conjunct2, THEN conjunct1, rule_format, OF disjI1, OF down]
  obtain m2 where "fst (GET box_request net_down [])
      = Inr \<lparr>next_status = 500, next_body = ErrorBody m2\<rparr>"
    by auto
  ultimately show ?thesis
    by (simp add: GET_def GET_try_def fetch_js_def NextResponse_json_def net_answers_def
          net_down_def service_unavailable_def null_body_status_def)
qed

theorem gateway_failure_counterexample:
  "\<not> ok not_modified \<and> status not_modified = 304
   \<and> fst (GET box_request (net_answers not_modified) [])
       = Inr \<lparr>next_status = 500,
              next_body = ErrorBody (''Internal Server Error: '' @ null_body_message)\<rparr>"
  by (simp add: GET_def GET_try_def fetch_js_def NextResponse_json_def net_answers_def
        not_modified_def null_body_status_def)

text \<open>
  C8. When the upstream fetch succeeds with an OK status and a body that parses, the
  Gateway answers with status 200 and the body that \<open>JSON.stringify\<close> writes for the
  value \<open>JSON.parse\<close> read. That body is the upstream JSON body itself, as a JSON value,
  whenever every number of the upstream body is the decimal that JavaScript writes for
  the double nearest to it, and every object in it has distinct names in the order in
  which JavaScript enumerates them.
\<close>

theorem gateway_round_trip:
  assumes "upstream (openSkyURL request) = FetchResponse r" and "ok r" and "json r = Inr body"
  shows "fst (GET request upstream sent)
           = Inr \<lparr>next_status = 200, next_body = DataBody (JSON_stringify (JSON_parse body))\<rparr>
         \<and> (canonical_json body \<longrightarrow>
              fst (GET request upstream sent) = Inr \<lparr>next_status = 200, next_body = DataBody body\<rparr>)"
proof -
  from assms have "GET_try upstream (openSkyURL request) sent
      = (Inr \<lparr>next_status = 200, next_body = DataBody (JSON_stringify (JSON_parse body))\<rparr>,
         sent @ [openSkyURL request])"
    by (simp add: GET_try_def fetch_js_def response_json_def NextResponse_json_200)
  then have answer: "fst (GET request upstream sent)
      = Inr \<lparr>next_status = 200, next_body = DataBody (JSON_stringify (JSON_parse body))\<rparr>"
    by (simp add: GET_def)
  then show ?thesis
    by (simp add: round_trip_canonical)
qed

theorem gateway_round_trip_witness:
  "canonical_json (JObject [(''time'', JNumber 1), (''states'', JArray [])])
   \<and> fst (GET box_request
           (net_answers (upstream_ok (JObject [(''time'', JNumber 1), (''states'', JArray [])]))) [])
     = Inr \<lparr>next_status = 200,
            next_body = DataBody (JObject [(''time'', JNumber 1), (''states'', JArray [])])\<rparr>"
proof -
  let ?body = "JObject [(''time'', JNumber 1), (''states'', JArray [])]"
  have stable: "canonical_json ?body"
    by (simp add: key_before_def array_index_def to_double_one Number_toString_one)
  have answered:
      "net_answers (upstream_ok ?body) (openSkyURL box_request) = FetchResponse (upstream_ok ?body)"
      "ok (upstream_ok ?body)" "json (upstream_ok ?body) = Inr ?body"
    by (simp_all add: net_answers_def upstream_ok_def)
  from gateway_round_trip [of "net_answers (upstream_ok ?body)" box_request
      "upstream_ok ?body" ?body "[]", OF answered, THEN conjunct2, rule_format, OF stable] stable
  show ?thesis
    by (intro conjI)
qed

theorem gateway_round_trip_counterexample:
  "fst (GET box_request
         (net_answers (upstream_ok
            (JObject [(''time'', JNumber (10 ^ 400)), (''id'', JNumber 9007199254740993),
                      (''states'', JNull), (''states'', JArray [])])))
         [])
     = Inr \<lparr>next_status = 200,
            next_body = DataBody
              (JObject [(''time'', JNull), (''id'', JNumber 9007199254740992),
                        (''states'', JArray [])])\<rparr>
   \<and> JObject [(''time'', JNull), (''id'', JNumber 9007199254740992), (''states'', JArray [])]
     \<noteq> JObject [(''time'', JNumber (10 ^ 400)), (''id'', JNumber 9007199254740993),
                (''states'', JNull), (''states'', JArray [])]"
proof -
  let ?body = "JObject [(''time'', JNumber (10 ^ 400)), (''id'', JNumber 9007199254740993),
      (''states'', JNull), (''states'', JArray [])]"
  have parsed: "JSON_parse ?body
      = JSObject (build_object [(''time'', JSNumber PosInfinity),
          (''id'', JSNumber (Finite 9007199254740992)), (''states'', JSNull),
          (''states'', JSArray [])])"
    unfolding JSON_parse.simps list.map prod.case to_double_overflow to_double_above_2_53
    by (rule refl)
  have written: "JSON_stringify (JSON_parse ?body)
      = JObject [(''time'', JNull), (''id'', JNumber 9007199254740992), (''states'', JArray [])]"
    unfolding parsed
    by (simp add: build_object_def key_before_def array_index_def Number_toString_2_53)
  have "fst (GET box_request (net_answers (upstream_ok ?body)) [])
      = Inr \<lparr>next_status = 200, next_body = DataBody (JSON_stringify (JSON_parse ?body))\<rparr>"
    by (simp only: GET_def GET_try_def fetch_js_def response_json_def NextResponse_json_200
          net_answers_def upstream_ok_def fetch_result.case response.simps sum.case
          prod.case fst_conv simp_thms if_False if_True)
  then show ?thesis
    unfolding written by simp
qed

text \<open>
  C10. Whatever query parameters a request carries, the Gateway issues exactly one
  upstream request, to the URL built from the four parameters, and in that URL the text
  \<open>null\<close> stands in the place of each of \<open>lamin\<close>, \<open>lomin\<close>, \<open>lamax\<close>, \<open>lomax\<close> that the
  request lacks. Nothing is validated or rejected.
\<close>

theorem missing_parameters_forwarded:
  "snd (GET request upstream sent) = sent @ [openSkyURL request]
   \<and> (\<exists>v1 v2 v3 v4.
        openSkyURL request
          = ''https://opensky-network.org/api/states/all?lamin='' @ v1 @ ''&lomin='' @ v2
            @ ''&lamax='' @ v3 @ ''&lomax='' @ v4
        \<and> (''lamin'' \<notin> fst ` set (searchParams request) \<longrightarrow> v1 = ''null'')
        \<and> (''lomin'' \<notin> fst ` set (searchParams request) \<longrightarrow> v2 = ''null'')
        \<and> (''lamax'' \<notin> fst ` set (searchParams request) \<longrightarrow> v3 = ''null'')
        \<and> (''lomax'' \<notin> fst ` set (searchParams request) \<longrightarrow> v4 = ''null''))"
proof
  show "snd (GET request upstream sent) = sent @ [openSkyURL request]"
  proof -
    obtain out sent' where tried: "GET_try upstream (openSkyURL request) sent = (out, sent')"
      by (cases "GET_try upstream (openSkyURL request) sent")
    with GET_try_requests [of upstream "openSkyURL request" sent]
    have "sent' = sent @ [openSkyURL request]" by simp
    with tried show ?thesis
      by (cases out) (simp_all add: GET_def Let_def)
  qed
next
  have absent: "name \<notin> fst ` set (searchParams request) \<Longrightarrow>
      template_str (searchParams_get (searchParams request) name) = ''null''" for name
  proof -
    assume "name \<notin> fst ` set (searchParams request)"
    then have "map_of (searchParams request) name = None"
      by (simp add: map_of_eq_None_iff)
    then show ?thesis
      by (simp add: searchParams_get_def)
  qed
  show "\<exists>v1 v2 v3 v4.
        openSkyURL request
          = ''https://opensky-network.org/api/states/all?lamin='' @ v1 @ ''&lomin='' @ v2
            @ ''&lamax='' @ v3 @ ''&lomax='' @ v4
        \<and> (''lamin'' \<notin> fst ` set (searchParams request) \<longrightarrow> v1 = ''null'')
        \<and> (''lomin'' \<notin> fst ` set (searchParams request) \<longrightarrow> v2 = ''null'')
        \<and> (''lamax'' \<notin> fst ` set (searchParams request) \<longrightarrow> v3 = ''null'')
        \<and> (''lomax'' \<notin> fst ` set (searchParams request) \<longrightarrow> v4 = ''null'')"
    apply (rule exI [of _ "template_str (searchParams_get (searchParams request) ''lamin'')"])
    apply (rule exI [of _ "template_str (searchParams_get (searchParams request) ''lomin'')"])
    apply (rule exI [of _ "template_str (searchParams_get (searchParams request) ''lamax'')"])
    apply (rule exI [of _ "template_str (searchParams_get (searchParams request) ''lomax'')"])
    apply (intro conjI impI)
        apply (simp add: openSkyURL_def)
       apply (erule absent)+
    done
qed

theorem missing_parameters_forwarded_witness:
  "snd (GET \<lparr>searchParams = [(''lamin'', ''10''), (''lomax'', ''20'')]\<rparr> net_down [])
     = [''https://opensky-network.org/api/states/all?lamin=10&lomin=null&lamax=null&lomax=20'']"
proof -
  have url: "openSkyURL \<lparr>searchParams = [(''lamin'', ''10''), (''lomax'', ''20'')]\<rparr>
      = ''https://opensky-network.org/api/states/all?lamin=10&lomin=null&lamax=null&lomax=20''"
    by (simp add: openSkyURL_def searchParams_get_def)
  from missing_parameters_forwarded
      [of "\<lparr>searchParams = [(''lamin'', ''10''), (''lomax'', ''20'')]\<rparr>" net_down "[]"]
  show ?thesis
    by (simp add: url)
qed

end
